theory Spec2Isabelle
  imports Main "HOL-Library.Word"
begin

section \<open>JavaScript strings and values\<close>

text \<open>
  A JavaScript string is a sequence of UTF-16 code units, and \<open>length\<close>, \<open>substring\<close>,
  \<open>includes\<close> and the regular expressions without the \<open>u\<close> flag all work on code units.
  String literals of the sources are ASCII and are written \<open>js ''...''\<close>.
\<close>

type_synonym jchar = "16 word"
type_synonym jstring = "jchar list"

definition js :: "string \<Rightarrow> jstring" where
  "js s = map (\<lambda>c. of_nat (of_char c)) s"

definition startsWith :: "'a list \<Rightarrow> 'a list \<Rightarrow> bool" where
  "startsWith s n = (take (length n) s = n)"

text \<open>\<open>s.includes(n)\<close>: some suffix of \<open>s\<close> starts with \<open>n\<close>.\<close>

fun str_includes :: "'a list \<Rightarrow> 'a list \<Rightarrow> bool" where
  "str_includes [] n = (n = [])"
| "str_includes (x # xs) n = (startsWith (x # xs) n \<or> str_includes xs n)"

text \<open>
  The character class \<open>\s\<close> of a JavaScript regular expression: the white space and
  line terminator code units. \<open>trim()\<close> removes the same code units.
\<close>

definition is_space :: "jchar \<Rightarrow> bool" where
  "is_space c =
     ((0x09 \<le> c \<and> c \<le> 0x0D) \<or> c = 0x20 \<or> c = 0xA0 \<or> c = 0x1680 \<or>
      (0x2000 \<le> c \<and> c \<le> 0x200A) \<or> c = 0x2028 \<or> c = 0x2029 \<or> c = 0x202F \<or>
      c = 0x205F \<or> c = 0x3000 \<or> c = 0xFEFF)"

text \<open>
  The values a parameter or a parsed JSON body can hold. Numbers are kept as integers:
  the functions below only ask a number whether it is truthy and what its type is.
\<close>

datatype jsval =
    JUndefined
  | JNull
  | JBool bool
  | JNum int
  | JStr jstring
  | JArr "jsval list"
  | JObj "(jstring \<times> jsval) list"

fun truthy :: "jsval \<Rightarrow> bool" where
  "truthy JUndefined = False"
| "truthy JNull = False"
| "truthy (JBool b) = b"
| "truthy (JNum n) = (n \<noteq> 0)"
| "truthy (JStr s) = (s \<noteq> [])"
| "truthy (JArr xs) = True"
| "truthy (JObj fs) = True"

fun is_string :: "jsval \<Rightarrow> bool" where
  "is_string (JStr s) = True"
| "is_string v = False"

fun is_object :: "jsval \<Rightarrow> bool" where
  "is_object JNull = True"
| "is_object (JArr xs) = True"
| "is_object (JObj fs) = True"
| "is_object v = False"

text \<open>Property read \<open>v.k\<close> on a value that is not null or undefined.\<close>

fun get_prop :: "jsval \<Rightarrow> jstring \<Rightarrow> jsval" where
  "get_prop (JObj fs) k = (case map_of fs k of Some v \<Rightarrow> v | None \<Rightarrow> JUndefined)"
| "get_prop v k = JUndefined"

text \<open>
  An exception object: \<open>name\<close>, \<open>message\<close>, and the \<open>code\<close> a database driver sets.
  \<open>throw lastError\<close> with no error recorded throws \<open>undefined\<close>.
\<close>

record js_error =
  name :: jstring
  message :: jstring
  code :: "jstring option"

definition new_Error :: "jstring \<Rightarrow> js_error" where
  "new_Error m = \<lparr>name = js ''Error'', message = m, code = None\<rparr>"

definition TypeError :: "jstring \<Rightarrow> js_error" where
  "TypeError m = \<lparr>name = js ''TypeError'', message = m, code = None\<rparr>"

datatype thrown = Thrown js_error | ThrownUndefined

text \<open>\<open>response.ok\<close> of the Fetch API: the status is in the range 200 to 299.\<close>

definition status_ok :: "int \<Rightarrow> bool" where
  "status_ok s = (200 \<le> s \<and> s \<le> 299)"

section \<open>ApiClient (fix-suggestions.js)\<close>

record circuit_breaker =
  failures :: int
  lastFailure :: "int option"
  threshold :: int
  resetTimeout :: int

text \<open>
  \<open>baseURL\<close> is kept as what the template literal \<open>`${this.baseURL}${endpoint}`\<close>
  makes of it: its text, or the TypeError thrown for a value that cannot be turned into
  text (a symbol).
\<close>

record ApiClient =
  baseURL :: "js_error + jstring"
  timeout :: int
  maxRetries :: int
  retryDelay :: int
  circuitBreaker :: circuit_breaker

text \<open>
  \<open>Date.now() - this.circuitBreaker.lastFailure\<close>: a \<open>null\<close> lastFailure counts as 0 in
  the subtraction.
\<close>

definition timeSinceLastFailure :: "ApiClient \<Rightarrow> int \<Rightarrow> int" where
  "timeSinceLastFailure c now =
     now - (case lastFailure (circuitBreaker c) of None \<Rightarrow> 0 | Some t \<Rightarrow> t)"

definition isCircuitOpen :: "ApiClient \<Rightarrow> int \<Rightarrow> bool" where
  "isCircuitOpen c now =
     (if failures (circuitBreaker c) \<ge> threshold (circuitBreaker c) then
        timeSinceLastFailure c now < resetTimeout (circuitBreaker c)
      else False)"

definition isServerError :: "js_error \<Rightarrow> bool" where
  "isServerError e =
     (str_includes (message e) (js ''Server error'') \<or>
      str_includes (message e) (js ''Service temporarily unavailable'') \<or>
      name e = js ''AbortError'')"

definition shouldNotRetry :: "js_error \<Rightarrow> bool" where
  "shouldNotRetry e =
     (str_includes (message e) (js ''Invalid request'') \<or>
      str_includes (message e) (js ''Authentication required'') \<or>
      str_includes (message e) (js ''permission'') \<or>
      str_includes (message e) (js ''not found'') \<or>
      str_includes (message e) (js ''Validation failed'') \<or>
      str_includes (message e) (js ''No internet connection''))"

text \<open>
  What one HTTP exchange can bring back. \<open>body\<close> is the result of
  \<open>safelyParseResponse\<close> (the parsed JSON text, \<open>null\<close> for an empty or unparsable
  body); \<open>bodyMessage\<close> is the text of \<open>errorBody?.message\<close> when that is truthy;
  \<open>retryAfter\<close> is the header of that name; \<open>statusLine\<close> is the text
  \<open>`${response.status} ${response.statusText}`\<close>.
\<close>

record api_response =
  status :: int
  statusLine :: jstring
  retryAfter :: "jstring option"
  bodyMessage :: "jstring option"
  body :: jsval

datatype fetch_result = Rejects js_error | Responds api_response

text \<open>
  The argument \<open>options\<close> of \<open>request\<close>, by what the function asks of it. An
  argument that is \<open>undefined\<close> is replaced by the default \<open>{}\<close>; \<open>null\<close> is not.
  \<open>OptionsRaises\<close> is a value whose properties cannot be read (an accessor or a proxy
  that throws). For any other value, \<open>OptionsGiven\<close> says what its own property
  \<open>headers\<close> is: absent (so that \<open>config.headers\<close> is the object the function
  builds itself), an object that takes a new property, or something that does not
  (\<open>null\<close>, \<open>undefined\<close>, a primitive value, an object that is not extensible),
  with the TypeError that the assignment of a property to it throws in the strict code
  of a class.
\<close>

datatype headers_prop =
    HeadersAbsent
  | HeadersWritable
  | HeadersUnwritable js_error

datatype request_options =
    OptionsUndefined
  | OptionsNull
  | OptionsRaises js_error
  | OptionsGiven headers_prop

text \<open>
  The surroundings of one pass through the retry loop: \<open>navigator.onLine\<close>; what
  \<open>localStorage.getItem\<close> gives for \<open>token\<close> and for \<open>tokenExpiry\<close> (an exception, or
  the item, \<open>None\<close> for \<open>null\<close>); the value of \<open>Date.now()\<close> in \<open>isTokenValid\<close>; the
  outcome of \<open>fetch\<close> (a timeout of the AbortController is a rejection named
  AbortError); what \<open>handleAuthError\<close> throws, if anything; and the value of
  \<open>Date.now()\<close> in the catch block.
\<close>

record attempt_env =
  onLine :: bool
  tokenItem :: "js_error + jstring option"
  tokenExpiryItem :: "js_error + jstring option"
  checkedAt :: int
  fetched :: fetch_result
  logout :: "js_error option"
  failedAt :: int

text \<open>
  \<open>parseInt(s)\<close> without a radix: leading white space, a sign, \<open>0x\<close> for base 16, then
  the longest run of digits; \<open>None\<close> is \<open>NaN\<close>. The value is kept as an integer.
\<close>

definition digit_of :: "jchar \<Rightarrow> nat option" where
  "digit_of c =
     (if 0x30 \<le> c \<and> c \<le> 0x39 then Some (unat c - 48)
      else if 0x61 \<le> c \<and> c \<le> 0x7A then Some (unat c - 87)
      else if 0x41 \<le> c \<and> c \<le> 0x5A then Some (unat c - 55)
      else None)"

definition radix_digit :: "nat \<Rightarrow> jchar \<Rightarrow> bool" where
  "radix_digit r c = (case digit_of c of Some v \<Rightarrow> v < r | None \<Rightarrow> False)"

definition digits_value :: "nat \<Rightarrow> jstring \<Rightarrow> int" where
  "digits_value r ds =
     foldl (\<lambda>a c. a * int r + (case digit_of c of Some v \<Rightarrow> int v | None \<Rightarrow> 0)) 0 ds"

definition parseInt :: "jstring \<Rightarrow> int option" where
  "parseInt s =
     (let t = dropWhile is_space s;
          negative = (case t of c # cs \<Rightarrow> c = 0x2D | [] \<Rightarrow> False);
          u = (case t of c # cs \<Rightarrow> if c = 0x2B \<or> c = 0x2D then cs else t | [] \<Rightarrow> t);
          hex = (startsWith u [0x30, 0x78] \<or> startsWith u [0x30, 0x58]);
          r = (if hex then 16 else 10);
          v = (if hex then drop 2 u else u);
          ds = takeWhile (radix_digit r) v
      in if ds = [] then None
         else Some ((if negative then - 1 else 1) * digits_value r ds))"

text \<open>\<open>isTokenValid\<close>: \<open>expiry && Date.now() < parseInt(expiry)\<close>, as truthy or falsy.\<close>

definition isTokenValid :: "attempt_env \<Rightarrow> js_error + bool" where
  "isTokenValid ae =
     (case tokenExpiryItem ae of
        Inl e \<Rightarrow> Inl e
      | Inr None \<Rightarrow> Inr False
      | Inr (Some expiry) \<Rightarrow>
          if expiry = [] then Inr False
          else (case parseInt expiry of None \<Rightarrow> Inr False | Some t \<Rightarrow> Inr (checkedAt ae < t)))"

text \<open>
  The object literal of \<open>config\<close>, which reads \<open>options.headers\<close> and copies the
  properties of \<open>options\<close>: a TypeError for \<open>null\<close> (the text of its message differs
  between engines; none has one of the texts that \<open>isServerError\<close> and
  \<open>shouldNotRetry\<close> look for).
\<close>

definition read_headers :: "request_options \<Rightarrow> js_error option" where
  "read_headers options =
     (case options of
        OptionsNull \<Rightarrow> Some (TypeError (js ''Cannot read properties of null''))
      | OptionsRaises e \<Rightarrow> Some e
      | _ \<Rightarrow> None)"

text \<open>
  The assignment \<open>config.headers.Authorization = ...\<close>. After \<open>...options\<close>,
  \<open>config.headers\<close> is the property \<open>headers\<close> of \<open>options\<close> where there is one.
\<close>

definition set_authorization :: "request_options \<Rightarrow> js_error option" where
  "set_authorization options =
     (case options of
        OptionsGiven (HeadersUnwritable e) \<Rightarrow> Some e
      | _ \<Rightarrow> None)"

text \<open>
  The statements of the \<open>try\<close> block between the check of \<open>navigator.onLine\<close> and the
  call of \<open>fetch\<close>: the exception one of them throws, or \<open>None\<close>.
\<close>

definition before_fetch :: "request_options \<Rightarrow> attempt_env \<Rightarrow> js_error option" where
  "before_fetch options ae =
     (case read_headers options of
        Some e \<Rightarrow> Some e
      | None \<Rightarrow>
          (case tokenItem ae of
             Inl e \<Rightarrow> Some e
           | Inr None \<Rightarrow> None
           | Inr (Some token) \<Rightarrow>
               if token = [] then None
               else
                 (case isTokenValid ae of
                    Inl e \<Rightarrow> Some e
                  | Inr valid \<Rightarrow> if valid then set_authorization options else None)))"

datatype api_event = Fetch jstring | Wait int | AuthLogout

definition or_default :: "jstring option \<Rightarrow> jstring \<Rightarrow> jstring" where
  "or_default m d = (case m of Some s \<Rightarrow> s | None \<Rightarrow> d)"

definition status_error :: "api_response \<Rightarrow> js_error" where
  "status_error r =
     (let s = status r in
      if s = 400 then new_Error (or_default (bodyMessage r) (js ''Invalid request. Please check your input.''))
      else if s = 401 then new_Error (js ''Authentication required. Please log in again.'')
      else if s = 403 then new_Error (js ''You do not have permission to perform this action.'')
      else if s = 404 then new_Error (js ''The requested resource was not found.'')
      else if s = 409 then new_Error (or_default (bodyMessage r) (js ''Conflict. The resource already exists or is in use.''))
      else if s = 422 then new_Error (or_default (bodyMessage r) (js ''Validation failed. Please check your input.''))
      else if s = 429 then
        new_Error (js ''Too many requests. Please try again '' @
          (case retryAfter r of
             Some t \<Rightarrow> if t \<noteq> [] then js ''after '' @ t @ js '' seconds'' else js ''later''
           | None \<Rightarrow> js ''later'') @ js ''.'')
      else if s = 500 then new_Error (js ''Server error. Please try again later.'')
      else if s = 502 \<or> s = 503 \<or> s = 504 then
        new_Error (js ''Service temporarily unavailable. Please try again later.'')
      else new_Error (js ''Request failed: '' @ statusLine r))"

text \<open>The body of the \<open>try\<close> block: the error caught or the data returned, and what it did.\<close>

definition try_request ::
  "jstring \<Rightarrow> request_options \<Rightarrow> attempt_env \<Rightarrow> (js_error + jsval) \<times> api_event list" where
  "try_request url options ae =
     (if \<not> onLine ae then
        (Inl (new_Error (js ''No internet connection. Please check your network and try again.'')), [])
      else
        (case before_fetch options ae of
           Some e \<Rightarrow> (Inl e, [])
         | None \<Rightarrow>
             (case fetched ae of
                Rejects e \<Rightarrow> (Inl e, [Fetch url])
              | Responds r \<Rightarrow>
                  if \<not> status_ok (status r) then
                    (if status r = 401 then
                       (Inl (case logout ae of Some e \<Rightarrow> e | None \<Rightarrow> status_error r),
                        [Fetch url, AuthLogout])
                     else (Inl (status_error r), [Fetch url]))
                  else (Inr (body r), [Fetch url]))))"

definition record_failure :: "ApiClient \<Rightarrow> int \<Rightarrow> ApiClient" where
  "record_failure c now =
     c\<lparr>circuitBreaker := (circuitBreaker c)\<lparr>failures := failures (circuitBreaker c) + 1,
                                              lastFailure := Some now\<rparr>\<rparr>"

definition reset_breaker :: "ApiClient \<Rightarrow> ApiClient" where
  "reset_breaker c =
     c\<lparr>circuitBreaker := (circuitBreaker c)\<lparr>failures := 0, lastFailure := None\<rparr>\<rparr>"

text \<open>
  The loop \<open>for (let attempt = 1; attempt <= this.maxRetries; attempt++)\<close> followed by
  \<open>throw lastError\<close>. The result is what \<open>request\<close> returns or throws, the client
  after the call, and the events in the order they happened.
\<close>

function request_loop ::
  "ApiClient \<Rightarrow> jstring \<Rightarrow> request_options \<Rightarrow> (nat \<Rightarrow> attempt_env) \<Rightarrow> nat \<Rightarrow> thrown
   \<Rightarrow> api_event list \<Rightarrow> (thrown + jsval) \<times> ApiClient \<times> api_event list" where
  "request_loop c url options env attempt lastError tr =
     (if int attempt \<le> maxRetries c then
        (case try_request url options (env attempt) of
           (Inr result, evs) \<Rightarrow> (Inr result, reset_breaker c, tr @ evs)
         | (Inl e, evs) \<Rightarrow>
             (let c' = (if isServerError e then record_failure c (failedAt (env attempt)) else c)
              in if shouldNotRetry e then (Inl (Thrown e), c', tr @ evs)
                 else if int attempt < maxRetries c then
                   request_loop c' url options env (Suc attempt) (Thrown e)
                     (tr @ evs @ [Wait (retryDelay c * 2 ^ (attempt - 1))])
                 else request_loop c' url options env (Suc attempt) (Thrown e) (tr @ evs)))
      else (Inl lastError, c, tr))"
  by pat_completeness auto
termination
  by (relation "measure (\<lambda>(c, url, options, env, attempt, lastError, tr).
                           nat (maxRetries c + 1 - int attempt))")
     (auto simp: record_failure_def)

declare request_loop.simps [simp del]

text \<open>
  \<open>request(endpoint, options = {})\<close>; \<open>now\<close> is the value of \<open>Date.now()\<close> in
  \<open>isCircuitOpen\<close>. What is thrown and caught in the loop is an error object with a
  message.
\<close>

definition request ::
  "ApiClient \<Rightarrow> int \<Rightarrow> jsval \<Rightarrow> request_options \<Rightarrow> (nat \<Rightarrow> attempt_env)
   \<Rightarrow> (thrown + jsval) \<times> ApiClient \<times> api_event list" where
  "request c now endpoint options env =
     (if isCircuitOpen c now then
        (Inl (Thrown (new_Error (js ''Service temporarily unavailable. Please try again later.''))), c, [])
      else if \<not> truthy endpoint \<or> \<not> is_string endpoint then
        (Inl (Thrown (new_Error (js ''Valid endpoint is required''))), c, [])
      else
        (case endpoint of
           JStr ep \<Rightarrow>
             (case baseURL c of
                Inl e \<Rightarrow> (Inl (Thrown e), c, [])
              | Inr base \<Rightarrow>
                  request_loop c (base @ ep)
                    (if options = OptionsUndefined then OptionsGiven HeadersAbsent else options)
                    env 1 ThrownUndefined [])
         | _ \<Rightarrow> (Inl (Thrown (new_Error (js ''Valid endpoint is required''))), c, [])))"

definition is_fetch :: "api_event \<Rightarrow> bool" where
  "is_fetch ev = (case ev of Fetch u \<Rightarrow> True | _ \<Rightarrow> False)"

definition fetch_count :: "api_event list \<Rightarrow> nat" where
  "fetch_count tr = length (filter is_fetch tr)"

text \<open>A client whose breaker has tripped, and surroundings that are offline or failing.\<close>

definition tripped_client :: ApiClient where
  "tripped_client =
     \<lparr>baseURL = Inr (js ''/api''), timeout = 10000, maxRetries = 3, retryDelay = 1000,
      circuitBreaker = \<lparr>failures = 5, lastFailure = Some 1000, threshold = 5, resetTimeout = 60000\<rparr>\<rparr>"

definition offline_env :: "nat \<Rightarrow> attempt_env" where
  "offline_env k =
     \<lparr>onLine = False, tokenItem = Inr None, tokenExpiryItem = Inr None, checkedAt = 70000,
      fetched = Rejects (new_Error (js ''Failed to fetch'')), logout = None, failedAt = 70000\<rparr>"

definition failing_env :: "nat \<Rightarrow> attempt_env" where
  "failing_env k =
     \<lparr>onLine = True, tokenItem = Inr (Some (js ''abc.def.ghi'')),
      tokenExpiryItem = Inr (Some (js ''90000'')), checkedAt = 70000,
      fetched = Rejects (new_Error (js ''Failed to fetch'')), logout = None, failedAt = 70000\<rparr>"

section \<open>DatabaseService (fix-suggestions.js)\<close>

text \<open>Decimal text of a number, as a template literal prints it.\<close>

function dec :: "nat \<Rightarrow> jstring" where
  "dec n = (if n < 10 then [48 + of_nat n] else dec (n div 10) @ [48 + of_nat (n mod 10)])"
  by pat_completeness auto
termination
  by (relation "measure (\<lambda>n. n)") auto

declare dec.simps [simp del]

text \<open>
  \<open>connectionPool\<close> is kept as the fact that the field is not null; the constructor
  leaves it \<open>null\<close>.
\<close>

record DatabaseService =
  connectionPool :: bool
  queryTimeout :: int
  retryAttempts :: int

definition isDeadlockError :: "js_error \<Rightarrow> bool" where
  "isDeadlockError e =
     (code e = Some (js ''ER_LOCK_DEADLOCK'') \<or> str_includes (message e) (js ''deadlock''))"

definition isConnectionError :: "js_error \<Rightarrow> bool" where
  "isConnectionError e =
     (code e = Some (js ''ECONNRESET'') \<or>
      code e = Some (js ''ECONNREFUSED'') \<or>
      code e = Some (js ''ETIMEDOUT'') \<or>
      str_includes (message e) (js ''connection''))"

definition isConstraintError :: "js_error \<Rightarrow> bool" where
  "isConstraintError e =
     (code e = Some (js ''ER_DUP_ENTRY'') \<or>
      code e = Some (js ''ER_NO_REFERENCED_ROW'') \<or>
      str_includes (message e) (js ''constraint''))"

definition isTimeoutMessage :: "js_error \<Rightarrow> bool" where
  "isTimeoutMessage e = str_includes (message e) (js ''timeout'')"

definition parseConstraintError :: "js_error \<Rightarrow> jstring" where
  "parseConstraintError e =
     (if code e = Some (js ''ER_DUP_ENTRY'') then js ''Duplicate entry - record already exists''
      else if code e = Some (js ''ER_NO_REFERENCED_ROW'') then js ''Referenced record does not exist''
      else js ''Data constraint violation'')"

text \<open>
  What the surroundings do in one pass of the \<open>while\<close> loop of \<open>executeQuery\<close>:
  \<open>connect\<close> is what \<open>connectionPool.getConnection()\<close> does (\<open>None\<close>: a connection),
  \<open>setTimeoutQuery\<close> what the \<open>SET SESSION\<close> statement does, \<open>executed\<close> what the race
  between \<open>connection.execute\<close> and the timer gives (the timer rejects with
  \<open>Query timeout\<close>; a result that cannot be taken apart into rows and fields is an
  exception as well), and \<open>poolEnd\<close> what \<open>connectionPool.end()\<close> does in
  \<open>resetConnection\<close> (\<open>None\<close>: no exception).
\<close>

record 'r query_env =
  connect :: "js_error option"
  setTimeoutQuery :: "js_error option"
  executed :: "js_error + 'r"
  poolEnd :: "js_error option"

datatype db_event =
    GetConnection
  | Execute
  | Release
  | ResetConnection
  | DelayRandom
  | BeginTransaction
  | ExecuteOp nat
  | Commit
  | Rollback

definition getConnection :: "DatabaseService \<Rightarrow> js_error option \<Rightarrow> js_error option" where
  "getConnection svc pool_result =
     (if \<not> connectionPool svc then Some (new_Error (js ''Database connection pool not initialized''))
      else pool_result)"

text \<open>
  \<open>resetConnection\<close> ends the pool, if there is one, and then calls
  \<open>this.createConnectionPool()\<close>. The class defines no method of that name, so the call
  throws a TypeError; the \<open>catch\<close> block of \<open>resetConnection\<close> logs the error and throws
  it again. \<open>resetConnection\<close> therefore always throws, and \<open>connectionPool\<close> stays as
  it was.
\<close>

definition resetConnection :: "DatabaseService \<Rightarrow> 'r query_env \<Rightarrow> js_error" where
  "resetConnection svc qe =
     (case (if connectionPool svc then poolEnd qe else None) of
        Some e \<Rightarrow> e
      | None \<Rightarrow> TypeError (js ''this.createConnectionPool is not a function''))"

text \<open>
  The \<open>try\<close> block of one pass: the error caught or the rows, whether the variable
  \<open>connection\<close> was assigned in this pass, and the calls made.
\<close>

definition try_query :: "DatabaseService \<Rightarrow> 'r query_env \<Rightarrow> (js_error + 'r) \<times> bool \<times> db_event list" where
  "try_query svc qe =
     (case getConnection svc (connect qe) of
        Some e \<Rightarrow> (Inl e, False, [GetConnection])
      | None \<Rightarrow>
          (case setTimeoutQuery qe of
             Some e \<Rightarrow> (Inl e, True, [GetConnection])
           | None \<Rightarrow> (executed qe, True, [GetConnection, Execute])))"

text \<open>
  The loop \<open>while (attempt < this.retryAttempts)\<close>, from the pass with counter
  \<open>attempt\<close> on. \<open>conn\<close> says whether the variable \<open>connection\<close> (declared outside the
  loop) holds a connection; the \<open>finally\<close> block releases it after every pass, also
  before an exception leaves the function. A loop that ends without \<open>return\<close> or
  \<open>throw\<close> makes the function return \<open>undefined\<close>, here \<open>Inr None\<close>. The result is
  what is returned or thrown, the service afterwards, the calls made, and the errors
  the \<open>catch\<close> block received, one for each failed pass, in order. After a
  connection error with passes left the exception of \<open>resetConnection\<close> leaves the
  function; the \<open>delay\<close> and the \<open>continue\<close> behind it are never reached.
\<close>

function query_loop ::
  "DatabaseService \<Rightarrow> (nat \<Rightarrow> 'r query_env) \<Rightarrow> nat \<Rightarrow> bool
   \<Rightarrow> (js_error + 'r option) \<times> DatabaseService \<times> db_event list \<times> js_error list" where
  "query_loop svc env attempt conn =
     (if int attempt < retryAttempts svc then
        (case try_query svc (env attempt) of
           (Inr rows, got, evs) \<Rightarrow> (Inr (Some rows), svc, evs @ [Release], [])
         | (Inl e, got, evs) \<Rightarrow>
             (let conn' = (conn \<or> got);
                  rel = (if conn' then [Release] else []);
                  a = Suc attempt
              in if isDeadlockError e then
                   (if int a < retryAttempts svc then
                      (case query_loop svc env a conn' of
                         (r, svc', evs', errs) \<Rightarrow>
                           (r, svc', evs @ [DelayRandom] @ rel @ evs', e # errs))
                    else (Inl (new_Error (js ''Database deadlock - operation failed after retries'')),
                          svc, evs @ rel, [e]))
                 else if isConnectionError e then
                   (if int a < retryAttempts svc then
                      (Inl (resetConnection svc (env attempt)), svc, evs @ [ResetConnection] @ rel, [e])
                    else (Inl (new_Error (js ''Database connection failed after retries'')),
                          svc, evs @ rel, [e]))
                 else if isConstraintError e then
                   (Inl (new_Error (js ''Database constraint violation: '' @ parseConstraintError e)),
                    svc, evs @ rel, [e])
                 else if isTimeoutMessage e then
                   (Inl (new_Error (js ''Database query timed out - operation took too long'')),
                    svc, evs @ rel, [e])
                 else
                   (Inl (new_Error (js ''Database operation failed: '' @ message e)),
                    svc, evs @ rel, [e])))
      else (Inr None, svc, [], []))"
  by pat_completeness auto
termination
  by (relation "measure (\<lambda>(svc, env, attempt, conn). nat (retryAttempts svc - int attempt))") auto

declare query_loop.simps [simp del]

fun is_array :: "jsval \<Rightarrow> bool" where
  "is_array (JArr xs) = True"
| "is_array v = False"

definition executeQuery ::
  "DatabaseService \<Rightarrow> jsval \<Rightarrow> jsval \<Rightarrow> (nat \<Rightarrow> 'r query_env)
   \<Rightarrow> (js_error + 'r option) \<times> DatabaseService \<times> db_event list \<times> js_error list" where
  "executeQuery svc query params env =
     (if \<not> truthy query \<or> \<not> is_string query then
        (Inl (new_Error (js ''Valid SQL query is required'')), svc, [], [])
      else if truthy params \<and> \<not> is_array params then
        (Inl (new_Error (js ''Query parameters must be an array'')), svc, [], [])
      else query_loop svc env 0 False)"

definition attempts :: "db_event list \<Rightarrow> nat" where
  "attempts tr = length (filter (\<lambda>ev. ev = GetConnection) tr)"

definition q_result :: "'a \<times> 'b \<times> 'c \<times> 'd \<Rightarrow> 'a" where
  "q_result run = fst run"

definition q_events :: "'a \<times> 'b \<times> 'c \<times> 'd \<Rightarrow> 'c" where
  "q_events run = fst (snd (snd run))"



text \<open>A service with a pool, and surroundings in which every pass fails the same way.\<close>

definition ready_service :: DatabaseService where
  "ready_service = \<lparr>connectionPool = True, queryTimeout = 30000, retryAttempts = 3\<rparr>"

definition always_failing :: "js_error \<Rightarrow> nat \<Rightarrow> unit query_env" where
  "always_failing e k = \<lparr>connect = None, setTimeoutQuery = None, executed = Inl e, poolEnd = None\<rparr>"

definition connection_timeout :: js_error where
  "connection_timeout =
     \<lparr>name = js ''Error'', message = js ''Connection timeout'', code = Some (js ''ETIMEDOUT'')\<rparr>"




definition select_one :: jsval where
  "select_one = JStr (js ''SELECT 1'')"


definition is_nullish :: "jsval \<Rightarrow> bool" where
  "is_nullish v = (v = JNull \<or> v = JUndefined)"




definition failed :: "'e + 'a \<Rightarrow> bool" where
  "failed r = (case r of Inl e \<Rightarrow> True | Inr v \<Rightarrow> False)"






section \<open>BlogApiService (api-service.ts)\<close>

text \<open>
  A value that is thrown or that a promise rejects with: an \<open>Error\<close> object, or
  anything else (for which \<open>error instanceof Error\<close> is false).
\<close>

datatype thrown_value = ErrorObject js_error | NotAnError jsval

text \<open>
  A response of \<open>fetch\<close>: the status, the status text, and what \<open>response.json()\<close>
  resolves to or rejects with.
\<close>

record http_response =
  http_status :: nat
  http_statusText :: jstring
  http_json :: "thrown_value + jsval"

record ApiResponse =
  success :: bool
  data :: jsval
  response_message :: jstring
  errors :: "jstring list"

definition http_error :: "http_response \<Rightarrow> thrown_value" where
  "http_error r =
     ErrorObject (new_Error (js ''HTTP '' @ dec (http_status r) @ js '': '' @ http_statusText r))"

definition error_text :: "thrown_value \<Rightarrow> jstring" where
  "error_text t = (case t of ErrorObject e \<Rightarrow> message e | NotAnError v \<Rightarrow> js ''Unknown error'')"

text \<open>The \<open>try\<close> block of \<open>getPosts\<close>, given what \<open>fetch\<close> does with the URL.\<close>

definition getPosts_try ::
  "(jstring \<Rightarrow> thrown_value + http_response) \<Rightarrow> nat \<Rightarrow> nat \<Rightarrow> thrown_value + ApiResponse" where
  "getPosts_try fetch page limit =
     (case fetch (js ''/api/v1/posts'' @ js ''?page='' @ dec page @ js ''&limit='' @ dec limit) of
        Inl t \<Rightarrow> Inl t
      | Inr response \<Rightarrow>
          if \<not> status_ok (int (http_status response)) then Inl (http_error response)
          else
            (case http_json response of
               Inl t \<Rightarrow> Inl t
             | Inr json \<Rightarrow>
                 if is_nullish json then
                   Inl (ErrorObject (TypeError (js ''Cannot read properties of null'')))
                 else
                   Inr \<lparr>success = True, data = get_prop json (js ''posts''),
                        response_message = js ''Posts retrieved successfully'', errors = []\<rparr>))"

definition getPosts ::
  "(jstring \<Rightarrow> thrown_value + http_response) \<Rightarrow> nat \<Rightarrow> nat \<Rightarrow> thrown_value + ApiResponse" where
  "getPosts fetch page limit =
     (case getPosts_try fetch page limit of
        Inr r \<Rightarrow> Inr r
      | Inl error \<Rightarrow>
          Inr \<lparr>success = False, data = JNull,
               response_message = js ''Failed to retrieve posts'', errors = [error_text error]\<rparr>)"

definition getPost_try ::
  "(jstring \<Rightarrow> thrown_value + http_response) \<Rightarrow> jstring \<Rightarrow> thrown_value + ApiResponse" where
  "getPost_try fetch post_id =
     (case fetch (js ''/api/v1/posts'' @ js ''/'' @ post_id) of
        Inl t \<Rightarrow> Inl t
      | Inr response \<Rightarrow>
          if \<not> status_ok (int (http_status response)) then Inl (http_error response)
          else
            (case http_json response of
               Inl t \<Rightarrow> Inl t
             | Inr post \<Rightarrow>
                 Inr \<lparr>success = True, data = post,
                      response_message = js ''Post retrieved successfully'', errors = []\<rparr>))"

definition getPost ::
  "(jstring \<Rightarrow> thrown_value + http_response) \<Rightarrow> jstring \<Rightarrow> thrown_value + ApiResponse" where
  "getPost fetch post_id =
     (case getPost_try fetch post_id of
        Inr r \<Rightarrow> Inr r
      | Inl error \<Rightarrow>
          Inr \<lparr>success = False, data = JNull,
               response_message = js ''Failed to retrieve post'', errors = [error_text error]\<rparr>)"

text \<open>What the claim asks of a returned \<open>ApiResponse\<close>.\<close>

definition well_formed_response :: "ApiResponse \<Rightarrow> bool" where
  "well_formed_response r =
     ((success r \<longrightarrow> errors r = []) \<and>
      (\<not> success r \<longrightarrow> data r = JNull \<and> length (errors r) = 1))"

text \<open>Servers for the examples: one that is down, one that answers 404, one that answers.\<close>

definition network_down :: "jstring \<Rightarrow> thrown_value + http_response" where
  "network_down url = Inl (ErrorObject (TypeError (js ''Failed to fetch'')))"

definition answers_404 :: "jstring \<Rightarrow> thrown_value + http_response" where
  "answers_404 url =
     Inr \<lparr>http_status = 404, http_statusText = js ''Not Found'', http_json = Inr JNull\<rparr>"

definition answers_posts :: "jstring \<Rightarrow> thrown_value + http_response" where
  "answers_posts url =
     Inr \<lparr>http_status = 200, http_statusText = js ''OK'',
          http_json = Inr (JObj [(js ''posts'', JArr [])])\<rparr>"

section \<open>Regular expressions\<close>

text \<open>
  Patterns that are tested against a whole string (\<open>^...$\<close>) are kept as terms and
  matched by taking the derivative for each code unit in turn.
\<close>

datatype pattern =
    Nothing
  | Empty
  | OneOf "jchar \<Rightarrow> bool"
  | Either pattern pattern
  | Then pattern pattern
  | Many pattern

definition Some_of :: "pattern \<Rightarrow> pattern" where
  "Some_of p = Then p (Many p)"

fun accepts_empty :: "pattern \<Rightarrow> bool" where
  "accepts_empty Nothing = False"
| "accepts_empty Empty = True"
| "accepts_empty (OneOf f) = False"
| "accepts_empty (Either p q) = (accepts_empty p \<or> accepts_empty q)"
| "accepts_empty (Then p q) = (accepts_empty p \<and> accepts_empty q)"
| "accepts_empty (Many p) = True"

fun after :: "jchar \<Rightarrow> pattern \<Rightarrow> pattern" where
  "after c Nothing = Nothing"
| "after c Empty = Nothing"
| "after c (OneOf f) = (if f c then Empty else Nothing)"
| "after c (Either p q) = Either (after c p) (after c q)"
| "after c (Then p q) =
     (if accepts_empty p then Either (Then (after c p) q) (after c q) else Then (after c p) q)"
| "after c (Many p) = Then (after c p) (Many p)"

fun whole_match :: "pattern \<Rightarrow> jstring \<Rightarrow> bool" where
  "whole_match p [] = accepts_empty p"
| "whole_match p (c # cs) = whole_match (after c p) cs"

section \<open>loginUserSecure (fix-suggestions.js)\<close>

text \<open>\<open>/^[^\s@]+@[^\s@]+\.[^\s@]+$/\<close>\<close>

definition not_space_or_at :: "jchar \<Rightarrow> bool" where
  "not_space_or_at c = (\<not> is_space c \<and> c \<noteq> 0x40)"

definition emailRegex :: pattern where
  "emailRegex =
     Then (Some_of (OneOf not_space_or_at))
       (Then (OneOf (\<lambda>c. c = 0x40))
          (Then (Some_of (OneOf not_space_or_at))
             (Then (OneOf (\<lambda>c. c = 0x2E)) (Some_of (OneOf not_space_or_at)))))"

text \<open>
  A response to the login request: status and status text, the \<open>content-type\<close>
  header (\<open>None\<close> when absent), and what \<open>response.json()\<close> gives.
\<close>

record login_response =
  login_status :: int
  login_statusText :: jstring
  contentType :: "jstring option"
  login_json :: "js_error + jsval"

datatype login_fetch = FetchRejects js_error | FetchResponds login_response

datatype login_event = LoginFetch nat | LoginWait int | StoreToken

record login_success =
  user :: jsval
  token :: jstring

text \<open>\<open>token.split('.').length\<close>: one more than the number of dots.\<close>

definition split_parts :: "jstring \<Rightarrow> nat" where
  "split_parts t = Suc (length (filter (\<lambda>c. c = 0x2E) t))"

text \<open>
  The \<open>try\<close> block of one pass; \<open>parsed\<close> is the \<open>data\<close> of the source. A failure
  of \<open>localStorage.setItem\<close> is caught inside and only logged.
\<close>

definition login_try :: "login_fetch \<Rightarrow> js_error + login_success" where
  "login_try f =
     (case f of
        FetchRejects e \<Rightarrow> Inl e
      | FetchResponds response \<Rightarrow>
          if \<not> status_ok (login_status response) then
            (if login_status response = 401 then Inl (new_Error (js ''Invalid email or password''))
             else if login_status response = 429 then
               Inl (new_Error (js ''Too many login attempts. Please try again later''))
             else if login_status response \<ge> 500 then
               Inl (new_Error (js ''Server error. Please try again later''))
             else Inl (new_Error (js ''Login failed: '' @ login_statusText response)))
          else
            (case contentType response of
               None \<Rightarrow> Inl (new_Error (js ''Invalid response format from server''))
             | Some ct \<Rightarrow>
                 if ct = [] \<or> \<not> str_includes ct (js ''application/json'') then
                   Inl (new_Error (js ''Invalid response format from server''))
                 else
                   (case login_json response of
                      Inl e \<Rightarrow> Inl e
                    | Inr parsed \<Rightarrow>
                        if \<not> truthy parsed \<or> \<not> is_object parsed then
                          Inl (new_Error (js ''Invalid response data''))
                        else
                          (case get_prop parsed (js ''token'') of
                             JStr tok \<Rightarrow>
                               if tok = [] then
                                 Inl (new_Error (js ''Authentication token not received''))
                               else if \<not> truthy (get_prop parsed (js ''user'')) \<or>
                                       \<not> is_object (get_prop parsed (js ''user'')) then
                                 Inl (new_Error (js ''User information not received''))
                               else if split_parts tok \<noteq> 3 then
                                 Inl (new_Error (js ''Invalid authentication token format''))
                               else Inr \<lparr>user = get_prop parsed (js ''user''), token = tok\<rparr>
                           | _ \<Rightarrow> Inl (new_Error (js ''Authentication token not received''))))))"

text \<open>The two \<open>break\<close> conditions of the \<open>catch\<close> block.\<close>

definition no_retry :: "js_error \<Rightarrow> bool" where
  "no_retry e =
     ((str_includes (message e) (js ''Invalid email or password'') \<or>
       str_includes (message e) (js ''email'') \<or>
       str_includes (message e) (js ''password'') \<or>
       (name e = js ''TypeError'' \<and> str_includes (message e) (js ''format''))) \<or>
      str_includes (message e) (js ''Too many login attempts''))"

definition backoff :: "nat \<Rightarrow> int" where
  "backoff attempt = min (1000 * 2 ^ (attempt - 1)) 5000"

text \<open>\<open>throw new Error(lastError?.message || 'Login failed after multiple attempts')\<close>\<close>

definition final_error :: "js_error option \<Rightarrow> js_error" where
  "final_error lastError =
     (case lastError of
        None \<Rightarrow> new_Error (js ''Login failed after multiple attempts'')
      | Some e \<Rightarrow>
          if message e = [] then new_Error (js ''Login failed after multiple attempts'')
          else new_Error (message e))"

text \<open>
  The loop \<open>for (let attempt = 1; attempt <= maxRetries; attempt++)\<close> from the pass
  \<open>attempt\<close> on, and the \<open>throw\<close> after it. \<open>env k\<close> is what \<open>fetch\<close> does in pass
  \<open>k\<close>; \<open>max_retries\<close> is the constant \<open>maxRetries\<close>, which is 3.
\<close>

function login_loop ::
  "nat \<Rightarrow> (nat \<Rightarrow> login_fetch) \<Rightarrow> nat \<Rightarrow> js_error option
   \<Rightarrow> (js_error + login_success) \<times> login_event list" where
  "login_loop max_retries env attempt lastError =
     (if attempt \<le> max_retries then
        (case login_try (env attempt) of
           Inr result \<Rightarrow> (Inr result, [LoginFetch attempt, StoreToken])
         | Inl error \<Rightarrow>
             if no_retry error then (Inl (final_error (Some error)), [LoginFetch attempt])
             else if attempt < max_retries then
               (case login_loop max_retries env (Suc attempt) (Some error) of
                  (r, evs) \<Rightarrow> (r, LoginFetch attempt # LoginWait (backoff attempt) # evs))
             else
               (case login_loop max_retries env (Suc attempt) (Some error) of
                  (r, evs) \<Rightarrow> (r, LoginFetch attempt # evs)))
      else (Inl (final_error lastError), []))"
  by pat_completeness auto
termination
  by (relation "measure (\<lambda>(max_retries, env, attempt, lastError). Suc max_retries - attempt)") auto

declare login_loop.simps [simp del]

definition loginUserSecure ::
  "jsval \<Rightarrow> jsval \<Rightarrow> (nat \<Rightarrow> login_fetch) \<Rightarrow> (js_error + login_success) \<times> login_event list" where
  "loginUserSecure email password env =
     (if \<not> truthy email \<or> \<not> is_string email then
        (Inl (new_Error (js ''Valid email address is required'')), [])
      else
        (case password of
           JStr pw \<Rightarrow>
             if pw = [] \<or> length pw < 8 then
               (Inl (new_Error (js ''Password must be at least 8 characters long'')), [])
             else
               (case email of
                  JStr em \<Rightarrow>
                    if \<not> whole_match emailRegex em then
                      (Inl (new_Error (js ''Please enter a valid email address'')), [])
                    else login_loop 3 env 1 None
                | _ \<Rightarrow> (Inl (new_Error (js ''Valid email address is required'')), []))
         | _ \<Rightarrow> (Inl (new_Error (js ''Password must be at least 8 characters long'')), [])))"

definition is_login_fetch :: "login_event \<Rightarrow> bool" where
  "is_login_fetch ev = (case ev of LoginFetch k \<Rightarrow> True | _ \<Rightarrow> False)"

definition validation_messages :: "jstring set" where
  "validation_messages =
     {js ''Valid email address is required'',
      js ''Password must be at least 8 characters long'',
      js ''Please enter a valid email address''}"

text \<open>A response with status 401 or 429 in pass \<open>k\<close>.\<close>

definition refused :: "login_fetch \<Rightarrow> bool" where
  "refused f =
     (case f of
        FetchRejects e \<Rightarrow> False
      | FetchResponds response \<Rightarrow> login_status response = 401 \<or> login_status response = 429)"

text \<open>Servers for the examples.\<close>

definition plain_response :: "int \<Rightarrow> string \<Rightarrow> login_fetch" where
  "plain_response s t =
     FetchResponds \<lparr>login_status = s, login_statusText = js t, contentType = None,
                    login_json = Inr JNull\<rparr>"

definition server_down :: "nat \<Rightarrow> login_fetch" where
  "server_down k = plain_response 503 ''Service Unavailable''"

definition busy_then_refuses :: "nat \<Rightarrow> login_fetch" where
  "busy_then_refuses k =
     (if k = 1 then plain_response 503 ''Service Unavailable'' else plain_response 401 ''Unauthorized'')"

definition good_email :: jsval where
  "good_email = JStr (js ''ada@example.org'')"

definition good_password :: jsval where
  "good_password = JStr (js ''correct horse'')"

text \<open>
  The calls of a run that makes \<open>c\<close> requests, the first in pass \<open>a\<close>, with the waits
  between them; used to describe the loop in the proofs.
\<close>

fun schedule :: "nat \<Rightarrow> nat \<Rightarrow> login_event list" where
  "schedule a 0 = []"
| "schedule a (Suc 0) = [LoginFetch a]"
| "schedule a (Suc (Suc c)) = LoginFetch a # LoginWait (backoff a) # schedule (Suc a) (Suc c)"

section \<open>Text helpers (edge-case-scenarios.js)\<close>

text \<open>\<open>s.trim()\<close>\<close>

definition trim :: "jstring \<Rightarrow> jstring" where
  "trim s = rev (dropWhile is_space (rev (dropWhile is_space s)))"


text \<open>\<open>s.replace(/[class]/g, r)\<close> for a class of code units and one code unit \<open>r\<close>.\<close>

definition replace_class :: "(jchar \<Rightarrow> bool) \<Rightarrow> jchar \<Rightarrow> jstring \<Rightarrow> jstring" where
  "replace_class f r s = map (\<lambda>c. if f c then r else c) s"

text \<open>
  Unicode normalisation (\<open>normalize('NFC')\<close>) is a parameter \<open>nfc\<close> of the two functions
  below. It leaves ASCII text and the other texts of the examples as they are.
\<close>

definition unchanged :: "jstring \<Rightarrow> jstring" where
  "unchanged s = s"

section \<open>sanitizeFilePathRobust (edge-case-scenarios.js)\<close>

record path_options =
  maxPathLength :: int
  allowRelativePaths :: bool
  preserveExtension :: bool
  os :: jstring

text \<open>The defaults, on a platform that is neither \<open>win32\<close> nor \<open>darwin\<close>.\<close>

definition default_path_options :: path_options where
  "default_path_options =
     \<lparr>maxPathLength = 260, allowRelativePaths = False, preserveExtension = True, os = js ''linux''\<rparr>"

text \<open>
  The replacement of \<open>/\.\.\/|\.\.\\|\.\.\//g\<close> by the empty text: one pass from
  left to right that removes each dot-dot-slash and each dot-dot-backslash it finds and
  goes on behind it.
\<close>

fun remove_traversal :: "jstring \<Rightarrow> jstring" where
  "remove_traversal (a # b # c # rest) =
     (if a = 0x2E \<and> b = 0x2E \<and> (c = 0x2F \<or> c = 0x5C) then remove_traversal rest
      else a # remove_traversal (b # c # rest))"
| "remove_traversal s = s"

text \<open>\<open>/[<>:"|?*\x00-\x1f]/\<close>\<close>

definition dangerousChars :: "jchar \<Rightarrow> bool" where
  "dangerousChars c =
     (c = 0x3C \<or> c = 0x3E \<or> c = 0x3A \<or> c = 0x22 \<or> c = 0x7C \<or> c = 0x3F \<or> c = 0x2A \<or> c \<le> 0x1F)"

fun split_on :: "jchar \<Rightarrow> jstring \<Rightarrow> jstring list" where
  "split_on sep [] = [[]]"
| "split_on sep (c # cs) =
     (if c = sep then [] # split_on sep cs
      else (case split_on sep cs of p # ps \<Rightarrow> (c # p) # ps | [] \<Rightarrow> [[c]]))"

fun join :: "jchar \<Rightarrow> jstring list \<Rightarrow> jstring" where
  "join sep [] = []"
| "join sep [p] = p"
| "join sep (p # ps) = p @ sep # join sep ps"

text \<open>
  \<open>/^(CON|PRN|AUX|NUL|COM[1-9]|LPT[1-9])(\.|$)/i\<close>: the name starts with one of the
  reserved words, in either case of the ASCII letters, and a dot or the end follows.
\<close>

definition ascii_upper :: "jchar \<Rightarrow> jchar" where
  "ascii_upper c = (if 0x61 \<le> c \<and> c \<le> 0x7A then c - 0x20 else c)"

definition reserved_words :: "jstring list" where
  "reserved_words =
     map js [''CON'', ''PRN'', ''AUX'', ''NUL'',
             ''COM1'', ''COM2'', ''COM3'', ''COM4'', ''COM5'', ''COM6'', ''COM7'', ''COM8'', ''COM9'',
             ''LPT1'', ''LPT2'', ''LPT3'', ''LPT4'', ''LPT5'', ''LPT6'', ''LPT7'', ''LPT8'', ''LPT9'']"

definition reservedNames :: "jstring \<Rightarrow> bool" where
  "reservedNames fileName =
     list_ex (\<lambda>w. startsWith (map ascii_upper fileName) w \<and>
                  (case drop (length w) fileName of [] \<Rightarrow> True | c # cs \<Rightarrow> c = 0x2E))
       reserved_words"

text \<open>\<open>s.lastIndexOf('.')\<close>, \<open>-1\<close> when there is no dot.\<close>

definition lastIndexOf_dot :: "jstring \<Rightarrow> int" where
  "lastIndexOf_dot s =
     (if 0x2E \<in> set s then int (length s) - 1 - int (length (takeWhile (\<lambda>c. c \<noteq> 0x2E) (rev s)))
      else - 1)"

text \<open>\<open>s.substring(0, n)\<close> for a number \<open>n\<close> that may be negative.\<close>

definition substring0 :: "jstring \<Rightarrow> int \<Rightarrow> jstring" where
  "substring0 s n = take (nat n) s"

definition shorten :: "path_options \<Rightarrow> jstring \<Rightarrow> jstring" where
  "shorten opts path =
     (if int (length path) > maxPathLength opts then
        (if preserveExtension opts then
           (let lastDot = lastIndexOf_dot path;
                extension = (if lastDot > 0 then drop (nat lastDot) path else []);
                nameWithoutExt = (if lastDot > 0 then take (nat lastDot) path else path);
                maxNameLength = maxPathLength opts - int (length extension)
            in substring0 nameWithoutExt maxNameLength @ extension)
         else substring0 path (maxPathLength opts))
      else path)"

text \<open>\<open>path.replace(/^[\s.]+|[\s.]+$/g, '')\<close> and \<open>path.replace(/[\s.]+$/g, '')\<close>\<close>

definition space_or_dot :: "jchar \<Rightarrow> bool" where
  "space_or_dot c = (is_space c \<or> c = 0x2E)"

definition strip_end :: "jstring \<Rightarrow> jstring" where
  "strip_end s = rev (dropWhile space_or_dot (rev s))"

definition strip_both :: "jstring \<Rightarrow> jstring" where
  "strip_both s = strip_end (dropWhile space_or_dot s)"

text \<open>
  The function. The argument is \<open>None\<close> for \<open>null\<close> and \<open>undefined\<close> and otherwise the
  text \<open>String(filePath)\<close>.
\<close>

definition sanitizeFilePathRobust :: "(jstring \<Rightarrow> jstring) \<Rightarrow> jstring option \<Rightarrow> path_options \<Rightarrow> jstring" where
  "sanitizeFilePathRobust nfc filePath opts =
     (case filePath of
        None \<Rightarrow> []
      | Some p0 \<Rightarrow>
          if trim p0 = [] then []
          else
            (let p1 = replace_class (\<lambda>c. c = 0x5C) 0x2F p0;
                 p2 = (if (str_includes p1 (js ''../'') \<or> str_includes p1 [0x2E, 0x2E, 0x5C]) \<and>
                          \<not> allowRelativePaths opts
                       then remove_traversal p1 else p1);
                 p3 = replace_class dangerousChars 0x5F p2;
                 pathParts = split_on 0x2F p3;
                 fileName = last pathParts;
                 p4 = (if reservedNames fileName
                       then join 0x2F (butlast pathParts @ [0x5F # fileName]) else p3);
                 p5 = shorten opts p4;
                 p6 = nfc p5;
                 p7 = strip_both p6
             in if p7 = [] then js ''unnamed_file''
                else if os opts = js ''win32'' then strip_end p7
                else if os opts = js ''darwin'' then replace_class (\<lambda>c. c = 0x3A) 0x5F p7
                else p7))"

section \<open>processTextRobust (edge-case-scenarios.js)\<close>
















section \<open>calculateAverageRobust (edge-case-scenarios.js)\<close>

text \<open>
  The numbers of JavaScript are IEEE 754 doubles. Their arithmetic is not modelled here:
  the number type \<open>'n\<close> and the operations on it that the function uses are parameters,
  so what is proved holds for every arithmetic, that of the doubles included.
  \<open>num_div s k\<close> is \<open>s / k\<close> for an array length \<open>k\<close>, \<open>num_toFixed x p\<close> is
  \<open>Number(x.toFixed(p))\<close> for \<open>p\<close> from 0 to 100, \<open>num_of_string\<close> and \<open>num_of_bool\<close>
  are \<open>Number(v)\<close> for a string and a boolean.
\<close>

record 'n number_ops =
  num_zero :: 'n
  num_nan :: 'n
  num_add :: "'n \<Rightarrow> 'n \<Rightarrow> 'n"
  num_div :: "'n \<Rightarrow> nat \<Rightarrow> 'n"
  num_isNaN :: "'n \<Rightarrow> bool"
  num_isFinite :: "'n \<Rightarrow> bool"
  num_of_bool :: "bool \<Rightarrow> 'n"
  num_of_string :: "jstring \<Rightarrow> 'n"
  num_toFixed :: "'n \<Rightarrow> int \<Rightarrow> 'n"

text \<open>
  The values an array can hold, by what \<open>typeof\<close> says of them: \<open>VObject\<close> is an object
  that is not an array, \<open>VFunction\<close> a function, \<open>VSymbol\<close> a symbol.
\<close>

datatype 'n "value" =
    VUndefined
  | VNull
  | VBool bool
  | VNum 'n
  | VStr jstring
  | VSymbol
  | VFunction
  | VObject
  | VArray "'n value list"

record average_options =
  skipInvalid :: bool
  treatNullAsZero :: bool
  precision :: int
  handleOverflow :: bool

definition default_average_options :: average_options where
  "default_average_options =
     \<lparr>skipInvalid = True, treatNullAsZero = False, precision = 2, handleOverflow = True\<rparr>"

text \<open>\<open>Number(x.toFixed(precision))\<close>; \<open>toFixed\<close> throws a RangeError outside 0 to 100.\<close>

definition apply_precision :: "'n number_ops \<Rightarrow> int \<Rightarrow> 'n \<Rightarrow> js_error + 'n option" where
  "apply_precision ops p x =
     (if p < 0 \<or> p > 100 then
        Inl \<lparr>name = js ''RangeError'', message = js ''toFixed() digits argument must be between 0 and 100'',
             code = None\<rparr>
      else Inr (Some (num_toFixed ops x p)))"

text \<open>The second loop: the sum, with the check after each addition.\<close>

fun sum_loop :: "'n number_ops \<Rightarrow> bool \<Rightarrow> 'n \<Rightarrow> 'n list \<Rightarrow> js_error + 'n" where
  "sum_loop ops check s [] = Inr s"
| "sum_loop ops check s (x # xs) =
     (if check \<and> \<not> num_isFinite ops (num_add ops s x) then
        Inl (new_Error (js ''Arithmetic overflow occurred during calculation''))
      else sum_loop ops check (num_add ops s x) xs)"

text \<open>What the first loop does with a number it has converted, given the rest of its run.\<close>

definition keep_number ::
  "'n number_ops \<Rightarrow> average_options \<Rightarrow> 'n \<Rightarrow> (js_error + 'n list option) \<Rightarrow> js_error + 'n list option" where
  "keep_number ops opts x rest =
     (if num_isNaN ops x \<or> \<not> num_isFinite ops x then
        (if \<not> skipInvalid opts then Inr None else rest)
      else
        (case rest of
           Inl e \<Rightarrow> Inl e
         | Inr None \<Rightarrow> Inr None
         | Inr (Some xs) \<Rightarrow> Inr (Some (x # xs))))"

definition skip_value :: "average_options \<Rightarrow> (js_error + 'n list option) \<Rightarrow> js_error + 'n list option" where
  "skip_value opts rest = (if \<not> skipInvalid opts then Inr None else rest)"

definition null_value ::
  "'n number_ops \<Rightarrow> average_options \<Rightarrow> (js_error + 'n list option) \<Rightarrow> js_error + 'n list option" where
  "null_value ops opts rest =
     (if treatNullAsZero opts then
        (case rest of
           Inl e \<Rightarrow> Inl e
         | Inr None \<Rightarrow> Inr None
         | Inr (Some xs) \<Rightarrow> Inr (Some (num_zero ops # xs)))
      else skip_value opts rest)"

text \<open>
  The function, and its first loop \<open>validNumbers_of\<close> over the elements still to be
  looked at. The loop gives the list \<open>validNumbers\<close>, or \<open>None\<close> where the function
  returns \<open>null\<close> from inside the loop, or the exception thrown. \<open>Number(value)\<close> throws
  a TypeError for a symbol.
\<close>

fun calculateAverageRobust :: "'n number_ops \<Rightarrow> average_options \<Rightarrow> 'n value \<Rightarrow> js_error + 'n option"
  and validNumbers_of :: "'n number_ops \<Rightarrow> average_options \<Rightarrow> 'n value list \<Rightarrow> js_error + 'n list option"
where
  "calculateAverageRobust ops opts (VArray vs) =
     (if vs = [] then Inr None
      else
        (case validNumbers_of ops opts vs of
           Inl e \<Rightarrow> Inl e
         | Inr None \<Rightarrow> Inr None
         | Inr (Some validNumbers) \<Rightarrow>
             if validNumbers = [] then Inr None
             else
               (case sum_loop ops (handleOverflow opts) (num_zero ops) validNumbers of
                  Inl e \<Rightarrow> Inl e
                | Inr s \<Rightarrow>
                    if \<not> num_isFinite ops (num_div ops s (length validNumbers)) then
                      Inl (new_Error (js ''Average calculation resulted in non-finite number''))
                    else apply_precision ops (precision opts) (num_div ops s (length validNumbers)))))"
| "calculateAverageRobust ops opts (VNum x) =
     (if \<not> num_isNaN ops x \<and> num_isFinite ops x then apply_precision ops (precision opts) x
      else Inr None)"
| "calculateAverageRobust ops opts VUndefined = Inr None"
| "calculateAverageRobust ops opts VNull = Inr None"
| "calculateAverageRobust ops opts (VBool b) = Inr None"
| "calculateAverageRobust ops opts (VStr s) = Inr None"
| "calculateAverageRobust ops opts VSymbol = Inr None"
| "calculateAverageRobust ops opts VFunction = Inr None"
| "calculateAverageRobust ops opts VObject = Inr None"
| "validNumbers_of ops opts [] = Inr (Some [])"
| "validNumbers_of ops opts (VUndefined # vs) = null_value ops opts (validNumbers_of ops opts vs)"
| "validNumbers_of ops opts (VNull # vs) = null_value ops opts (validNumbers_of ops opts vs)"
| "validNumbers_of ops opts (VArray nested # vs) =
     (case calculateAverageRobust ops opts (VArray nested) of
        Inl e \<Rightarrow> Inl e
      | Inr None \<Rightarrow> skip_value opts (validNumbers_of ops opts vs)
      | Inr (Some nestedAvg) \<Rightarrow>
          (case validNumbers_of ops opts vs of
             Inl e \<Rightarrow> Inl e
           | Inr None \<Rightarrow> Inr None
           | Inr (Some xs) \<Rightarrow> Inr (Some (nestedAvg # xs))))"
| "validNumbers_of ops opts (VObject # vs) = skip_value opts (validNumbers_of ops opts vs)"
| "validNumbers_of ops opts (VSymbol # vs) =
     Inl (TypeError (js ''Cannot convert a Symbol value to a number''))"
| "validNumbers_of ops opts (VBool b # vs) =
     keep_number ops opts (num_of_bool ops b) (validNumbers_of ops opts vs)"
| "validNumbers_of ops opts (VNum x # vs) =
     keep_number ops opts x (validNumbers_of ops opts vs)"
| "validNumbers_of ops opts (VStr s # vs) =
     keep_number ops opts (num_of_string ops s) (validNumbers_of ops opts vs)"
| "validNumbers_of ops opts (VFunction # vs) =
     keep_number ops opts (num_nan ops) (validNumbers_of ops opts vs)"

section \<open>Properties\<close>

subsection \<open>ApiClient.request and the circuit breaker\<close>

lemma request_loop_extends:
  "\<exists>evs. snd (snd (request_loop c url options env attempt lastError tr)) = tr @ evs"
proof (induction c url options env attempt lastError tr rule: request_loop.induct)
  case (1 c url options env attempt lastError tr)
  show ?case
  proof (cases "int attempt \<le> maxRetries c")
    case False
    then show ?thesis by (subst request_loop.simps) simp
  next
    case True
    obtain r evs where t: "try_request url options (env attempt) = (r, evs)" by force
    show ?thesis
    proof (cases r)
      case (Inr d)
      then show ?thesis using True t by (subst request_loop.simps) simp
    next
      case (Inl e)
      define c' where "c' = (if isServerError e then record_failure c (failedAt (env attempt)) else c)"
      have ih1: "int attempt < maxRetries c \<Longrightarrow> \<not> shouldNotRetry e \<Longrightarrow>
        \<exists>more. snd (snd (request_loop c' url options env (Suc attempt) (Thrown e)
           (tr @ evs @ [Wait (retryDelay c * 2 ^ (attempt - 1))]))) = (tr @ evs @ [Wait (retryDelay c * 2 ^ (attempt - 1))]) @ more"
        using 1(1)[OF True t[symmetric] Inl c'_def] Inl by simp
      have ih2: "\<not> int attempt < maxRetries c \<Longrightarrow> \<not> shouldNotRetry e \<Longrightarrow>
        \<exists>more. snd (snd (request_loop c' url options env (Suc attempt) (Thrown e) (tr @ evs))) = (tr @ evs) @ more"
        using 1(2)[OF True t[symmetric] Inl c'_def] Inl by simp
      show ?thesis
        apply (subst request_loop.simps)
        using True t Inl ih1 ih2
        apply (auto simp: Let_def c'_def)
        done
    qed
  qed
qed

lemma before_fetch_default:
  "before_fetch (if options = OptionsUndefined then OptionsGiven HeadersAbsent else options) ae =
   before_fetch options ae"
proof (cases "options = OptionsUndefined")
  case False
  then show ?thesis by simp
next
  case True
  have a: "read_headers (OptionsGiven HeadersAbsent) = read_headers OptionsUndefined"
    by (simp add: read_headers_def)
  have b: "set_authorization (OptionsGiven HeadersAbsent) = set_authorization OptionsUndefined"
    by (simp add: set_authorization_def)
  have "before_fetch (OptionsGiven HeadersAbsent) ae = before_fetch OptionsUndefined ae"
    unfolding before_fetch_def a b by (rule refl)
  then show ?thesis using True by simp
qed

lemma before_fetch_None_iff:
  "before_fetch options ae = None \<longleftrightarrow>
     read_headers options = None \<and>
     (tokenItem ae = Inr None \<or> tokenItem ae = Inr (Some []) \<or>
      (\<exists>token. tokenItem ae = Inr (Some token)) \<and>
      (isTokenValid ae = Inr False \<or>
       isTokenValid ae = Inr True \<and> set_authorization options = None))"
  by (auto simp: before_fetch_def split: option.splits sum.splits)

lemma try_request_online:
  "onLine ae \<Longrightarrow> before_fetch options ae = None \<Longrightarrow>
     \<exists>r evs. try_request url options ae = (r, Fetch url # evs)"
  by (auto simp: try_request_def split: fetch_result.splits)

lemma request_loop_first_fetch:
  assumes "int attempt \<le> maxRetries c" "onLine (env attempt)"
    and "before_fetch options (env attempt) = None"
  shows "fetch_count (snd (snd (request_loop c url options env attempt lastError tr))) \<ge> fetch_count tr + 1"
proof -
  obtain r evs where t: "try_request url options (env attempt) = (r, Fetch url # evs)"
    using try_request_online[OF assms(2,3)] by blast
  have k: "\<And>c' a' l' rest. fetch_count (snd (snd (request_loop c' url options env a' l' (tr @ (Fetch url # evs) @ rest)))) \<ge> fetch_count tr + 1"
  proof -
    fix c' a' l' rest
    obtain more where "snd (snd (request_loop c' url options env a' l' (tr @ (Fetch url # evs) @ rest))) = (tr @ (Fetch url # evs) @ rest) @ more"
      using request_loop_extends by blast
    then show "fetch_count (snd (snd (request_loop c' url options env a' l' (tr @ (Fetch url # evs) @ rest)))) \<ge> fetch_count tr + 1"
      by (simp add: fetch_count_def is_fetch_def)
  qed
  show ?thesis
    apply (subst request_loop.simps)
    using assms(1) t k[of _ _ _ "[]"] k
    apply (auto split: sum.splits simp: Let_def fetch_count_def is_fetch_def)
    done
qed

text \<open>
  Claim C1, as the code has it. While \<open>failures\<close> is at least \<open>threshold\<close> and fewer
  than \<open>resetTimeout\<close> milliseconds have passed since \<open>lastFailure\<close>, \<open>request\<close>
  throws \<open>Service temporarily unavailable. Please try again later.\<close>, calls \<open>fetch\<close>
  not once and leaves the client as it was. Once \<open>resetTimeout\<close> milliseconds have
  passed the breaker check lets the call through, and \<open>fetch\<close> is called when the
  endpoint is a non-empty string, \<open>baseURL\<close> can be printed, \<open>maxRetries\<close> is at
  least 1, \<open>navigator.onLine\<close> holds in the first pass and none of the statements
  before \<open>fetch\<close> throws there (\<open>options\<close> is not \<open>null\<close> and can be read,
  \<open>localStorage\<close> can be read, and \<open>config.headers\<close> takes the \<open>Authorization\<close>
  property where a valid token is stored).
\<close>

theorem request_circuit_breaker:
  "(failures (circuitBreaker c) \<ge> threshold (circuitBreaker c) \<and>
    timeSinceLastFailure c now < resetTimeout (circuitBreaker c) \<longrightarrow>
      request c now endpoint options env =
        (Inl (Thrown (new_Error (js ''Service temporarily unavailable. Please try again later.''))), c, []))
   \<and>
   (timeSinceLastFailure c now \<ge> resetTimeout (circuitBreaker c) \<longrightarrow>
      \<not> isCircuitOpen c now \<and>
      (truthy endpoint \<and> is_string endpoint \<and> 1 \<le> maxRetries c \<and> onLine (env 1) \<and>
       (\<exists>base. baseURL c = Inr base) \<and> before_fetch options (env 1) = None \<longrightarrow>
         1 \<le> fetch_count (snd (snd (request c now endpoint options env)))))"
proof (intro conjI impI)
  assume "failures (circuitBreaker c) \<ge> threshold (circuitBreaker c) \<and>
    timeSinceLastFailure c now < resetTimeout (circuitBreaker c)"
  then show "request c now endpoint options env =
        (Inl (Thrown (new_Error (js ''Service temporarily unavailable. Please try again later.''))), c, [])"
    by (simp add: request_def isCircuitOpen_def)
next
  assume "timeSinceLastFailure c now \<ge> resetTimeout (circuitBreaker c)"
  then show "\<not> isCircuitOpen c now" by (simp add: isCircuitOpen_def)
next
  assume e: "timeSinceLastFailure c now \<ge> resetTimeout (circuitBreaker c)"
    and v: "truthy endpoint \<and> is_string endpoint \<and> 1 \<le> maxRetries c \<and> onLine (env 1) \<and>
            (\<exists>base. baseURL c = Inr base) \<and> before_fetch options (env 1) = None"
  from e have no: "\<not> isCircuitOpen c now" by (simp add: isCircuitOpen_def)
  from v obtain ep where ep: "endpoint = JStr ep" by (cases endpoint) auto
  from v obtain base where base: "baseURL c = Inr base" by blast
  define opts where "opts = (if options = OptionsUndefined then OptionsGiven HeadersAbsent else options)"
  have bf: "before_fetch opts (env 1) = None"
    using v before_fetch_default[of options "env 1"] by (simp add: opts_def)
  have "fetch_count (snd (snd (request_loop c (base @ ep) opts env 1 ThrownUndefined []))) \<ge> fetch_count [] + 1"
    using v bf by (intro request_loop_first_fetch) auto
  then show "1 \<le> fetch_count (snd (snd (request c now endpoint options env)))"
    using no v ep base by (simp add: request_def fetch_count_def opts_def)
qed

text \<open>
  Claim C1 as written says that after \<open>resetTimeout\<close> the request goes on to the
  network call. With the browser offline it does not: the reset time has passed, and
  \<open>fetch\<close> is never called.
\<close>

theorem request_after_reset_offline:
  "resetTimeout (circuitBreaker tripped_client) \<le> timeSinceLastFailure tripped_client 70000 \<and>
   fetch_count (snd (snd (request tripped_client 70000 (JStr (js ''/users'')) OptionsUndefined offline_env))) = 0"
  by code_simp

text \<open>
  The tripped client 29 seconds after its last failure refuses the call; 69 seconds after,
  online and with a valid token stored, it fetches.
\<close>

theorem request_circuit_breaker_witness:
  "request tripped_client 30000 (JStr (js ''/users'')) OptionsUndefined failing_env =
     (Inl (Thrown (new_Error (js ''Service temporarily unavailable. Please try again later.''))),
      tripped_client, []) \<and>
   1 \<le> fetch_count (snd (snd (request tripped_client 70000 (JStr (js ''/users'')) OptionsUndefined failing_env)))"
proof -
  have shut: "failures (circuitBreaker tripped_client) \<ge> threshold (circuitBreaker tripped_client) \<and>
      timeSinceLastFailure tripped_client 30000 < resetTimeout (circuitBreaker tripped_client)"
    by (simp add: tripped_client_def timeSinceLastFailure_def)
  have late: "timeSinceLastFailure tripped_client 70000 \<ge> resetTimeout (circuitBreaker tripped_client)"
    by (simp add: tripped_client_def timeSinceLastFailure_def)
  have fine: "truthy (JStr (js ''/users'')) \<and> is_string (JStr (js ''/users'')) \<and>
      1 \<le> maxRetries tripped_client \<and> onLine (failing_env 1)"
    by (simp add: tripped_client_def failing_env_def js_def)
  have ready: "(\<exists>base. baseURL tripped_client = Inr base) \<and>
               before_fetch OptionsUndefined (failing_env 1) = None"
  proof -
    have "baseURL tripped_client = Inr (js ''/api'')" by (simp add: tripped_client_def)
    moreover have "before_fetch OptionsUndefined (failing_env 1) = None" by code_simp
    ultimately show ?thesis by blast
  qed
  from request_circuit_breaker[of tripped_client 30000 "JStr (js ''/users'')" OptionsUndefined failing_env] shut
  have a: "request tripped_client 30000 (JStr (js ''/users'')) OptionsUndefined failing_env =
     (Inl (Thrown (new_Error (js ''Service temporarily unavailable. Please try again later.''))),
      tripped_client, [])"
    by blast
  from request_circuit_breaker[of tripped_client 70000 "JStr (js ''/users'')" OptionsUndefined failing_env]
    late fine ready
  have b: "1 \<le> fetch_count (snd (snd (request tripped_client 70000 (JStr (js ''/users'')) OptionsUndefined failing_env)))"
    by blast
  from a b show ?thesis by simp
qed

text \<open>
  The same client and surroundings with \<open>options = null\<close>: every pass stops at
  \<open>options.headers\<close>, and \<open>fetch\<close> is never called.
\<close>

lemma request_null_options:
  "fetch_count (snd (snd (request tripped_client 70000 (JStr (js ''/users'')) OptionsNull failing_env))) = 0"
  by code_simp

subsection \<open>DatabaseService.transaction\<close>








subsection \<open>sanitizeFilePathRobust\<close>

text \<open>
  Claim C3 says that with \<open>allowRelativePaths = false\<close> the result never contains
  \<open>../\<close>. The replacement makes one pass only: in \<open>a/....//b\<close> it removes the inner
  \<open>../\<close>, and what is left closes up to \<open>a/../b\<close>, which is returned.
\<close>

theorem sanitizeFilePathRobust_keeps_traversal:
  "\<not> allowRelativePaths default_path_options \<and>
   sanitizeFilePathRobust unchanged (Some (js ''a/....//b'')) default_path_options = js ''a/../b'' \<and>
   str_includes (sanitizeFilePathRobust unchanged (Some (js ''a/....//b'')) default_path_options) (js ''../'')"
  by code_simp

subsection \<open>DatabaseService.executeQuery\<close>

lemma attempts_simps [simp]:
  "attempts [] = 0"
  "attempts (GetConnection # tr) = Suc (attempts tr)"
  "attempts (Execute # tr) = attempts tr"
  "attempts (Release # tr) = attempts tr"
  "attempts (ResetConnection # tr) = attempts tr"
  "attempts (DelayRandom # tr) = attempts tr"
  "attempts (a @ b) = attempts a + attempts b"
  by (simp_all add: attempts_def)







lemma attempts_rel [simp]: "attempts (if c then [Release] else []) = 0"
  by simp





text \<open>
  A connection error with passes left is not retried: \<open>resetConnection\<close> throws, and the
  call ends after one pass with the TypeError.
\<close>

lemma executeQuery_connection_error_one_pass:
  "attempts (q_events (executeQuery ready_service select_one (JArr []) (always_failing connection_timeout))) = 1 \<and>
   q_result (executeQuery ready_service select_one (JArr []) (always_failing connection_timeout)) =
     Inl (TypeError (js ''this.createConnectionPool is not a function''))"
  by code_simp

subsection \<open>loginUserSecure: validation\<close>

text \<open>
  Claim C5. When the email is null, undefined, empty or not a string, or does not match
  \<open>/^[^\s@]+@[^\s@]+\.[^\s@]+$/\<close>, or the password is null, not a string or shorter than
  8 characters, \<open>loginUserSecure\<close> throws one of its three validation errors and has
  not called \<open>fetch\<close>.
\<close>

theorem loginUserSecure_validates_first:
  assumes "email = JNull \<or> email = JUndefined \<or> email = JStr [] \<or> \<not> is_string email \<or>
           (\<exists>s. email = JStr s \<and> \<not> whole_match emailRegex s) \<or>
           password = JNull \<or> \<not> is_string password \<or>
           (\<exists>p. password = JStr p \<and> length p < 8)"
  shows "\<exists>m \<in> validation_messages. loginUserSecure email password env = (Inl (new_Error m), [])"
proof -
  have "loginUserSecure email password env = (Inl (new_Error (js ''Valid email address is required'')), []) \<or>
        loginUserSecure email password env = (Inl (new_Error (js ''Password must be at least 8 characters long'')), []) \<or>
        loginUserSecure email password env = (Inl (new_Error (js ''Please enter a valid email address'')), [])"
    using assms by (cases email; cases password) (auto simp: loginUserSecure_def)
  then show ?thesis unfolding validation_messages_def by blast
qed

text \<open>
  An address without a dot after the \<open>@\<close>, and a password of seven characters: both are
  turned away before any request.
\<close>

theorem loginUserSecure_validates_first_witness:
  "(\<exists>m \<in> validation_messages.
      loginUserSecure (JStr (js ''ada@example'')) good_password server_down = (Inl (new_Error m), [])) \<and>
   (\<exists>m \<in> validation_messages.
      loginUserSecure good_email (JStr (js ''1234567'')) server_down = (Inl (new_Error m), []))"
proof -
  have "\<not> whole_match emailRegex (js ''ada@example'')" by code_simp
  then have a: "\<exists>s. JStr (js ''ada@example'') = JStr s \<and> \<not> whole_match emailRegex s" by blast
  have "length (js ''1234567'') < 8" by (simp add: js_def)
  then have b: "\<exists>p. JStr (js ''1234567'') = JStr p \<and> length p < 8" by blast
  from loginUserSecure_validates_first[of "JStr (js ''ada@example'')" good_password server_down] a
       loginUserSecure_validates_first[of good_email "JStr (js ''1234567'')" server_down] b
  show ?thesis by blast
qed

subsection \<open>loginUserSecure: retries\<close>

lemma refused_no_retry:
  assumes "refused f"
  shows "\<exists>e. login_try f = Inl e \<and> no_retry e"
proof -
  from assms obtain r where f: "f = FetchResponds r"
    and st: "login_status r = 401 \<or> login_status r = 429"
    by (cases f) (auto simp: refused_def)
  have a: "no_retry (new_Error (js ''Invalid email or password''))" by code_simp
  have b: "no_retry (new_Error (js ''Too many login attempts. Please try again later''))" by code_simp
  from st show ?thesis
  proof
    assume "login_status r = 401"
    then show ?thesis using f a by (simp add: login_try_def status_ok_def)
  next
    assume "login_status r = 429"
    then show ?thesis using f b by (simp add: login_try_def status_ok_def)
  qed
qed

lemma login_loop_done: "max_retries < attempt \<Longrightarrow> login_loop max_retries env attempt l = (Inl (final_error l), [])"
  by (subst login_loop.simps) simp

lemma login_loop_shape:
  "\<exists>c tail. snd (login_loop M env a l) = schedule a c @ tail \<and>
      (tail = [] \<or> tail = [StoreToken]) \<and>
      (a \<le> M \<longrightarrow> 1 \<le> c) \<and> a + c \<le> max (Suc M) a \<and>
      (\<forall>k. a \<le> k \<and> Suc k < a + c \<longrightarrow> \<not> refused (env k))"
proof (induction M env a l rule: login_loop.induct)
  case (1 M env a l)
  show ?case
  proof (cases "a \<le> M")
    case False
    then have "snd (login_loop M env a l) = schedule a 0 @ []"
      by (simp add: login_loop_done)
    then show ?thesis using False by (intro exI[of _ 0] exI[of _ "[]"]) auto
  next
    case True
    show ?thesis
    proof (cases "login_try (env a)")
      case (Inr result)
      then have "snd (login_loop M env a l) = schedule a 1 @ [StoreToken]"
        using True by (subst login_loop.simps) simp
      then show ?thesis using True by (intro exI[of _ 1] exI[of _ "[StoreToken]"]) auto
    next
      case (Inl e)
      show ?thesis
      proof (cases "no_retry e")
        case True
        then have "snd (login_loop M env a l) = schedule a 1 @ []"
          using \<open>a \<le> M\<close> Inl by (subst login_loop.simps) simp
        then show ?thesis using \<open>a \<le> M\<close> by (intro exI[of _ 1] exI[of _ "[]"]) auto
      next
        case again: False
        have nr: "\<not> refused (env a)"
          using refused_no_retry[of "env a"] Inl again by auto
        show ?thesis
        proof (cases "a < M")
          case False
          then have "snd (login_loop M env a l) = schedule a 1 @ []"
            using \<open>a \<le> M\<close> Inl again
            by (subst login_loop.simps) (simp add: login_loop_done)
          then show ?thesis using \<open>a \<le> M\<close> by (intro exI[of _ 1] exI[of _ "[]"]) auto
        next
          case more: True
          from 1(1)[OF \<open>a \<le> M\<close> Inl again more]
          obtain c tail where sh: "snd (login_loop M env (Suc a) (Some e)) = schedule (Suc a) c @ tail"
            and tl: "tail = [] \<or> tail = [StoreToken]"
            and c1: "1 \<le> c" and bd: "Suc a + c \<le> max (Suc M) (Suc a)"
            and nrs: "\<forall>k. Suc a \<le> k \<and> Suc k < Suc a + c \<longrightarrow> \<not> refused (env k)"
            using more by auto
          from c1 obtain c' where c': "c = Suc c'" by (cases c) auto
          have "snd (login_loop M env a l) = LoginFetch a # LoginWait (backoff a) # schedule (Suc a) c @ tail"
            using \<open>a \<le> M\<close> Inl again more sh
            by (subst login_loop.simps) (auto split: prod.splits)
          then have ev: "snd (login_loop M env a l) = schedule a (Suc c) @ tail"
            using c' by simp
          have "\<forall>k. a \<le> k \<and> Suc k < a + Suc c \<longrightarrow> \<not> refused (env k)"
          proof (intro allI impI)
            fix k assume k: "a \<le> k \<and> Suc k < a + Suc c"
            show "\<not> refused (env k)"
            proof (cases "k = a")
              case True then show ?thesis using nr by simp
            next
              case False
              then have "Suc a \<le> k \<and> Suc k < Suc a + c" using k by simp
              then show ?thesis using nrs by blast
            qed
          qed
          then show ?thesis using ev tl bd more
            by (intro exI[of _ "Suc c"] exI[of _ tail]) auto
        qed
      qed
    qed
  qed
qed

lemma schedule_fetches: "LoginFetch k \<in> set (schedule a c) \<longleftrightarrow> a \<le> k \<and> k < a + c"
  by (induction a c rule: schedule.induct) auto

lemma schedule_count: "length (filter is_login_fetch (schedule a c)) = c"
  by (induction a c rule: schedule.induct) (auto simp: is_login_fetch_def)

lemma schedule_wait:
  "a \<le> k \<Longrightarrow> Suc k < a + c \<Longrightarrow>
     \<exists>pre post. schedule a c = pre @ [LoginFetch k, LoginWait (backoff k), LoginFetch (Suc k)] @ post"
proof (induction a c rule: schedule.induct)
  case (1 a)
  then show ?case by simp
next
  case (2 a)
  then show ?case by simp
next
  case (3 a c)
  show ?case
  proof (cases "k = a")
    case True
    have "schedule a (Suc (Suc c)) = [] @ [LoginFetch a, LoginWait (backoff a), LoginFetch (Suc a)] @ tl (schedule (Suc a) (Suc c))"
      by (cases c) auto
    then show ?thesis using True by blast
  next
    case False
    then have "Suc a \<le> k" "Suc k < Suc a + Suc c" using 3(2,3) by auto
    from 3(1)[OF this] obtain pre post where
      "schedule (Suc a) (Suc c) = pre @ [LoginFetch k, LoginWait (backoff k), LoginFetch (Suc k)] @ post"
      by blast
    then have "schedule a (Suc (Suc c)) =
       (LoginFetch a # LoginWait (backoff a) # pre) @ [LoginFetch k, LoginWait (backoff k), LoginFetch (Suc k)] @ post"
      by simp
    then show ?thesis by blast
  qed
qed

text \<open>
  Claim C6. In every run of \<open>loginUserSecure\<close> there are at most 3 calls of \<open>fetch\<close>;
  after a pass whose response has status 401 or 429 no later pass calls \<open>fetch\<close>; and
  between the \<open>fetch\<close> of a pass \<open>k\<close> and the \<open>fetch\<close> of the next pass there is one
  wait, of \<open>min (1000 * 2^(k-1), 5000)\<close> milliseconds.
\<close>

theorem loginUserSecure_retries:
  "length (filter is_login_fetch (snd (loginUserSecure email password env))) \<le> 3 \<and>
   (\<forall>k. LoginFetch k \<in> set (snd (loginUserSecure email password env)) \<and> refused (env k) \<longrightarrow>
      (\<forall>j>k. LoginFetch j \<notin> set (snd (loginUserSecure email password env)))) \<and>
   (\<forall>k. LoginFetch k \<in> set (snd (loginUserSecure email password env)) \<and>
        LoginFetch (Suc k) \<in> set (snd (loginUserSecure email password env)) \<longrightarrow>
      (\<exists>pre post. snd (loginUserSecure email password env) =
         pre @ [LoginFetch k, LoginWait (min (1000 * 2 ^ (k - 1)) 5000), LoginFetch (Suc k)] @ post))"
proof -
  have shape: "\<exists>c tail. snd (loginUserSecure email password env) = schedule 1 c @ tail \<and>
      (tail = [] \<or> tail = [StoreToken]) \<and> c \<le> 3 \<and>
      (\<forall>k. 1 \<le> k \<and> Suc k < 1 + c \<longrightarrow> \<not> refused (env k))"
  proof (cases "\<exists>l. loginUserSecure email password env = login_loop 3 env 1 l")
    case True
    then obtain l where "loginUserSecure email password env = login_loop 3 env 1 l" by blast
    then show ?thesis using login_loop_shape[of 3 env 1 l] by auto
  next
    case False
    then have "snd (loginUserSecure email password env) = schedule 1 0 @ []"
      by (auto simp: loginUserSecure_def split: jsval.splits if_splits)
    then show ?thesis by (intro exI[of _ 0] exI[of _ "[]"]) auto
  qed
  then obtain c tail where ev: "snd (loginUserSecure email password env) = schedule 1 c @ tail"
    and tl: "tail = [] \<or> tail = [StoreToken]" and c3: "c \<le> 3"
    and nr: "\<forall>k. 1 \<le> k \<and> Suc k < 1 + c \<longrightarrow> \<not> refused (env k)"
    by blast
  have mem: "LoginFetch k \<in> set (schedule 1 c @ tail) \<longleftrightarrow> 1 \<le> k \<and> k < 1 + c" for k
    using tl by (auto simp: schedule_fetches)
  have p1: "length (filter is_login_fetch (schedule 1 c @ tail)) \<le> 3"
    using tl c3 by (auto simp: schedule_count is_login_fetch_def)
  have p2: "\<forall>k. LoginFetch k \<in> set (schedule 1 c @ tail) \<and> refused (env k) \<longrightarrow>
      (\<forall>j>k. LoginFetch j \<notin> set (schedule 1 c @ tail))"
  proof (intro allI impI)
    fix k j assume h: "LoginFetch k \<in> set (schedule 1 c @ tail) \<and> refused (env k)" and "k < j"
    from h mem have "1 \<le> k" "k < 1 + c" by auto
    with h nr have "\<not> Suc k < 1 + c" by blast
    with \<open>k < j\<close> show "LoginFetch j \<notin> set (schedule 1 c @ tail)" using mem by auto
  qed
  have p3: "\<forall>k. LoginFetch k \<in> set (schedule 1 c @ tail) \<and> LoginFetch (Suc k) \<in> set (schedule 1 c @ tail) \<longrightarrow>
      (\<exists>pre post. schedule 1 c @ tail =
         pre @ [LoginFetch k, LoginWait (min (1000 * 2 ^ (k - 1)) 5000), LoginFetch (Suc k)] @ post)"
  proof (intro allI impI)
    fix k assume h: "LoginFetch k \<in> set (schedule 1 c @ tail) \<and> LoginFetch (Suc k) \<in> set (schedule 1 c @ tail)"
    with mem have "1 \<le> k" "Suc k < 1 + c" by auto
    from schedule_wait[OF this] obtain pre post where
      "schedule 1 c = pre @ [LoginFetch k, LoginWait (backoff k), LoginFetch (Suc k)] @ post" by blast
    then have "schedule 1 c @ tail =
       pre @ [LoginFetch k, LoginWait (min (1000 * 2 ^ (k - 1)) 5000), LoginFetch (Suc k)] @ (post @ tail)"
      by (simp add: backoff_def)
    then show "\<exists>pre post. schedule 1 c @ tail =
         pre @ [LoginFetch k, LoginWait (min (1000 * 2 ^ (k - 1)) 5000), LoginFetch (Suc k)] @ post"
      by blast
  qed
  show ?thesis unfolding ev using p1 p2 p3 by blast
qed

text \<open>
  A server that answers 503 and then 401: two requests, one second apart, and no third.
\<close>

theorem loginUserSecure_retries_witness:
  "LoginFetch 3 \<notin> set (snd (loginUserSecure good_email good_password busy_then_refuses)) \<and>
   (\<exists>pre post. snd (loginUserSecure good_email good_password busy_then_refuses) =
      pre @ [LoginFetch 1, LoginWait 1000, LoginFetch 2] @ post)"
proof -
  let ?evs = "snd (loginUserSecure good_email good_password busy_then_refuses)"
  have evs: "?evs = [LoginFetch 1, LoginWait 1000, LoginFetch 2]" by code_simp
  have one: "LoginFetch 1 \<in> set ?evs" unfolding evs by simp
  have two: "LoginFetch (Suc 1) \<in> set ?evs" unfolding evs by simp
  have two': "LoginFetch 2 \<in> set ?evs" unfolding evs by simp
  have ref: "refused (busy_then_refuses 2)"
    by (simp add: busy_then_refuses_def plain_response_def refused_def)
  have lt: "(2::nat) < 3" by simp
  note main = loginUserSecure_retries[of good_email good_password busy_then_refuses]
  from main two' ref have "\<forall>j>2. LoginFetch j \<notin> set ?evs" by blast
  with lt have a: "LoginFetch 3 \<notin> set ?evs" by blast
  from main one two have
    "\<exists>pre post. ?evs = pre @ [LoginFetch 1, LoginWait (min (1000 * 2 ^ (1 - 1)) 5000), LoginFetch (Suc 1)] @ post"
    by blast
  then have b: "\<exists>pre post. ?evs = pre @ [LoginFetch 1, LoginWait 1000, LoginFetch 2] @ post"
    by (simp add: numeral_2_eq_2)
  from a b show ?thesis by blast
qed

subsection \<open>processTextRobust\<close>













subsection \<open>BlogApiService\<close>

lemma getPosts_returns:
  "\<exists>r. getPosts fetch page limit = Inr r \<and> well_formed_response r"
  by (auto simp: getPosts_def getPosts_try_def well_formed_response_def split: sum.splits)

lemma getPost_returns:
  "\<exists>r. getPost fetch post_id = Inr r \<and> well_formed_response r"
  by (auto simp: getPost_def getPost_try_def well_formed_response_def split: sum.splits)

text \<open>
  Claim C9. Whatever \<open>fetch\<close> and \<open>response.json()\<close> do, \<open>getPosts\<close> and \<open>getPost\<close>
  return an \<open>ApiResponse\<close> and throw nothing; in it, \<open>success = true\<close> comes with an
  empty \<open>errors\<close>, and \<open>success = false\<close> with \<open>data = null\<close> and exactly one message
  in \<open>errors\<close>.
\<close>

theorem blog_api_never_throws:
  "(\<exists>r. getPosts fetch page limit = Inr r \<and>
        (success r \<longrightarrow> errors r = []) \<and>
        (\<not> success r \<longrightarrow> data r = JNull \<and> length (errors r) = 1)) \<and>
   (\<exists>r. getPost fetch post_id = Inr r \<and>
        (success r \<longrightarrow> errors r = []) \<and>
        (\<not> success r \<longrightarrow> data r = JNull \<and> length (errors r) = 1))"
  using getPosts_returns[of fetch page limit] getPost_returns[of fetch post_id]
  unfolding well_formed_response_def by blast

text \<open>
  A server that answers 404 gives \<open>success = false\<close> with the one message
  \<open>HTTP 404: Not Found\<close>; a server that answers gives \<open>success = true\<close>.
\<close>

theorem blog_api_never_throws_witness:
  "(\<exists>r. getPosts answers_404 1 10 = Inr r \<and> \<not> success r \<and> data r = JNull \<and>
        errors r = [js ''HTTP 404: Not Found'']) \<and>
   (\<exists>r. getPost answers_posts (js ''42'') = Inr r \<and> success r \<and> errors r = [])"
proof -
  have a: "getPosts answers_404 1 10 =
             Inr \<lparr>success = False, data = JNull, response_message = js ''Failed to retrieve posts'',
                  errors = [js ''HTTP 404: Not Found'']\<rparr>"
    by code_simp
  have b: "getPost answers_posts (js ''42'') =
             Inr \<lparr>success = True, data = JObj [(js ''posts'', JArr [])],
                  response_message = js ''Post retrieved successfully'', errors = []\<rparr>"
    by code_simp
  from blog_api_never_throws[of answers_404 1 10 "js ''42''"]
       blog_api_never_throws[of answers_posts 1 10 "js ''42''"] a b
  show ?thesis by auto
qed

subsection \<open>calculateAverageRobust\<close>

text \<open>
  What the rest of claim C10 says holds in the model, whatever the arithmetic: an array of
  finite numbers whose running sums and mean are finite gives the rounded mean, and
  \<open>null\<close>, \<open>undefined\<close>, the empty array and a string give \<open>null\<close>.
\<close>

lemma validNumbers_of_numbers:
  assumes "\<forall>x \<in> set xs. \<not> num_isNaN ops x \<and> num_isFinite ops x"
  shows "validNumbers_of ops opts (map VNum xs) = Inr (Some xs)"
  using assms by (induction xs) (auto simp: keep_number_def)

lemma calculateAverageRobust_mean:
  assumes "xs \<noteq> []" "\<forall>x \<in> set xs. \<not> num_isNaN ops x \<and> num_isFinite ops x"
    and "sum_loop ops True (num_zero ops) xs = Inr s"
    and "num_isFinite ops (num_div ops s (length xs))"
  shows "calculateAverageRobust ops default_average_options (VArray (map VNum xs)) =
           Inr (Some (num_toFixed ops (num_div ops s (length xs)) 2))"
  using assms validNumbers_of_numbers[OF assms(2), of default_average_options]
  by (simp add: default_average_options_def apply_precision_def)

lemma calculateAverageRobust_null_cases:
  "calculateAverageRobust ops opts VNull = Inr None"
  "calculateAverageRobust ops opts VUndefined = Inr None"
  "calculateAverageRobust ops opts (VArray []) = Inr None"
  "calculateAverageRobust ops opts (VStr s) = Inr None"
  by simp_all

text \<open>
  Claim C10 says that an array with no valid numeric value gives \<open>null\<close> and never an
  exception. For the array that holds one symbol, \<open>Number(value)\<close> throws a TypeError
  and nothing in the function catches it.
\<close>

theorem calculateAverageRobust_symbol_throws:
  "calculateAverageRobust ops default_average_options (VArray [VSymbol]) =
     Inl (TypeError (js ''Cannot convert a Symbol value to a number''))"
  by simp

end
